theory Spec2Isabelle
  imports Main
begin

section \<open>GtkWindowButtonsQuartz: the native macOS window-button widget\<close>

text \<open>
  A shallow embedding of the widget implementation (the file that defines
  \<open>GtkWindowButtonsQuartz\<close>). The widget code talks to three collaborators that
  are not part of the file: the base class \<open>GtkWidget\<close> (chained-up virtual
  functions, \<open>gtk_widget_get_root\<close>, \<open>gtk_widget_get_height\<close>), the
  GDK macOS surface (\<open>gdk_macos_surface_*\<close>) and the GObject property system.
  Every call that leaves the file is recorded in a trace, in program order; what the
  collaborators do in reply is a parameter of the model.
\<close>

subsection \<open>Property identifiers\<close>

text \<open>The anonymous enum \<open>PROP_0, PROP_CLOSE, PROP_MINIMIZE, PROP_MAXIMIZE,
  NUM_PROPERTIES\<close>; property ids travel as \<open>guint\<close>.\<close>

definition PROP_0 :: nat where "PROP_0 = 0"
definition PROP_CLOSE :: nat where "PROP_CLOSE = 1"
definition PROP_MINIMIZE :: nat where "PROP_MINIMIZE = 2"
definition PROP_MAXIMIZE :: nat where "PROP_MAXIMIZE = 3"
definition NUM_PROPERTIES :: nat where "NUM_PROPERTIES = 4"

subsection \<open>Instance data\<close>

text \<open>The dynamic type of the surface a root widget sits on; the code only asks whether
  it is the macOS one.\<close>

datatype GdkSurface = GdkMacosSurface | OtherSurface

text \<open>What the widget code reads from its base instance: the surface of the widget's
  root (\<open>gtk_native_get_surface (GTK_NATIVE (gtk_widget_get_root (widget)))\<close>,
  \<open>None\<close> when the root has no surface) and the allocated height
  (\<open>gtk_widget_get_height\<close>). The hooks run on a widget that is part of a window
  hierarchy, so the root itself is there.\<close>

record GtkWidget =
  root_surface :: "GdkSurface option"
  allocated_height :: int

text \<open>\<open>struct _GtkWindowButtonsQuartz\<close>.\<close>

record GtkWindowButtonsQuartz =
  parent_instance :: GtkWidget
  close :: bool
  minimize :: bool
  maximize :: bool

text \<open>The type-check macro \<open>GDK_IS_MACOS_SURFACE\<close>: false on the null pointer and on
  every other surface type.\<close>

fun GDK_IS_MACOS_SURFACE :: "GdkSurface option \<Rightarrow> bool" where
  "GDK_IS_MACOS_SURFACE (Some GdkMacosSurface) = True"
| "GDK_IS_MACOS_SURFACE (Some OtherSurface) = False"
| "GDK_IS_MACOS_SURFACE None = False"

subsection \<open>Calls that leave the file\<close>

datatype event =
    ParentRealize
  | ParentUnrealize
  | ParentSizeAllocate int int int
  | ShowWindowControls bool
  | EnableWindowControls bool bool bool
  | SetWindowControlsHeight int

text \<open>The calls made on the surface, as opposed to the chained-up base-class calls.\<close>

fun is_surface_call :: "event \<Rightarrow> bool" where
  "is_surface_call (ShowWindowControls b) = True"
| "is_surface_call (EnableWindowControls c m x) = True"
| "is_surface_call (SetWindowControlsHeight h) = True"
| "is_surface_call ParentRealize = False"
| "is_surface_call ParentUnrealize = False"
| "is_surface_call (ParentSizeAllocate w h b) = False"

definition surface_calls :: "event list \<Rightarrow> event list" where
  "surface_calls tr = filter is_surface_call tr"

text \<open>The collaborators. The base class sees the base instance only; the reply of
  \<open>gdk_macos_surface_show_window_controls\<close> may depend on everything that was
  called before and on the requested visibility.\<close>

record platform =
  parent_realize :: "GtkWidget \<Rightarrow> GtkWidget"
  parent_unrealize :: "GtkWidget \<Rightarrow> GtkWidget"
  parent_size_allocate :: "GtkWidget \<Rightarrow> int \<Rightarrow> int \<Rightarrow> int \<Rightarrow> GtkWidget"
  show_window_controls_reply :: "event list \<Rightarrow> bool \<Rightarrow> bool"

record world =
  obj :: GtkWindowButtonsQuartz
  trace :: "event list"

definition emit :: "event \<Rightarrow> world \<Rightarrow> world" where
  "emit e w = w\<lparr>trace := trace w @ [e]\<rparr>"

definition chain_up :: "(GtkWidget \<Rightarrow> GtkWidget) \<Rightarrow> event \<Rightarrow> world \<Rightarrow> world" where
  "chain_up f e w =
     emit e (w\<lparr>obj := (obj w)\<lparr>parent_instance := f (parent_instance (obj w))\<rparr>\<rparr>)"

definition gtk_native_get_surface :: "world \<Rightarrow> GdkSurface option" where
  "gtk_native_get_surface w = root_surface (parent_instance (obj w))"

definition gtk_widget_get_height :: "world \<Rightarrow> int" where
  "gtk_widget_get_height w = allocated_height (parent_instance (obj w))"

definition gdk_macos_surface_show_window_controls ::
    "platform \<Rightarrow> world \<Rightarrow> bool \<Rightarrow> bool \<times> world" where
  "gdk_macos_surface_show_window_controls p w b =
     (show_window_controls_reply p (trace w) b, emit (ShowWindowControls b) w)"

definition gdk_macos_surface_enable_window_controls ::
    "world \<Rightarrow> bool \<Rightarrow> bool \<Rightarrow> bool \<Rightarrow> world" where
  "gdk_macos_surface_enable_window_controls w c m x = emit (EnableWindowControls c m x) w"

definition gdk_macos_surface_set_window_controls_height :: "world \<Rightarrow> int \<Rightarrow> world" where
  "gdk_macos_surface_set_window_controls_height w h = emit (SetWindowControlsHeight h) w"

subsection \<open>Property accessors\<close>

text \<open>\<open>G_OBJECT_WARN_INVALID_PROPERTY_ID\<close> logs a warning and changes nothing
  (\<open>InvalidPropertyId\<close>); the other warnings are the property system's own.\<close>

datatype warning =
    InvalidPropertyId nat
  | ConstructOnlyProperty nat
  | NotWritableProperty nat
  | NoSuchProperty nat

text \<open>\<open>gtk_window_buttons_quartz_get_property\<close>: the \<open>GValue\<close> holds a boolean;
  the function returns its new content, which is the old content on the default
  branch.\<close>

definition gtk_window_buttons_quartz_get_property ::
    "GtkWindowButtonsQuartz \<Rightarrow> nat \<Rightarrow> bool \<Rightarrow> bool \<times> warning list" where
  "gtk_window_buttons_quartz_get_property self prop_id value =
     (if prop_id = PROP_CLOSE then (close self, [])
      else if prop_id = PROP_MINIMIZE then (minimize self, [])
      else if prop_id = PROP_MAXIMIZE then (maximize self, [])
      else (value, [InvalidPropertyId prop_id]))"

text \<open>\<open>gtk_window_buttons_quartz_set_property\<close>.\<close>

definition gtk_window_buttons_quartz_set_property ::
    "GtkWindowButtonsQuartz \<Rightarrow> nat \<Rightarrow> bool \<Rightarrow> GtkWindowButtonsQuartz \<times> warning list" where
  "gtk_window_buttons_quartz_set_property self prop_id value =
     (if prop_id = PROP_CLOSE then (self\<lparr>close := value\<rparr>, [])
      else if prop_id = PROP_MINIMIZE then (self\<lparr>minimize := value\<rparr>, [])
      else if prop_id = PROP_MAXIMIZE then (self\<lparr>maximize := value\<rparr>, [])
      else (self, [InvalidPropertyId prop_id]))"

subsection \<open>Lifecycle hooks\<close>

text \<open>\<open>update_native_window_buttons_height\<close>.\<close>

definition update_native_window_buttons_height :: "world \<Rightarrow> world" where
  "update_native_window_buttons_height w =
     (let surface = gtk_native_get_surface w in
      if GDK_IS_MACOS_SURFACE surface then
        (let height = gtk_widget_get_height w in
         if height > 0 then gdk_macos_surface_set_window_controls_height w height
         else w)
      else w)"

text \<open>\<open>gtk_window_buttons_quartz_realize\<close>: the base class first; the \<open>&&\<close> asks
  the surface only when the type check has passed.\<close>

definition gtk_window_buttons_quartz_realize :: "platform \<Rightarrow> world \<Rightarrow> world" where
  "gtk_window_buttons_quartz_realize p w =
     (let w1 = chain_up (parent_realize p) ParentRealize w;
          surface = gtk_native_get_surface w1
      in if GDK_IS_MACOS_SURFACE surface then
           (case gdk_macos_surface_show_window_controls p w1 True of
              (shown, w2) \<Rightarrow>
                if shown then
                  gdk_macos_surface_enable_window_controls w2
                    (close (obj w2)) (minimize (obj w2)) (maximize (obj w2))
                else w2)
         else w1)"

text \<open>\<open>gtk_window_buttons_quartz_unrealize\<close>: the reply of the surface is dropped.\<close>

definition gtk_window_buttons_quartz_unrealize :: "platform \<Rightarrow> world \<Rightarrow> world" where
  "gtk_window_buttons_quartz_unrealize p w =
     (let surface = gtk_native_get_surface w;
          w1 = (if GDK_IS_MACOS_SURFACE surface
                then snd (gdk_macos_surface_show_window_controls p w False)
                else w)
      in chain_up (parent_unrealize p) ParentUnrealize w1)"

datatype GtkOrientation = GTK_ORIENTATION_HORIZONTAL | GTK_ORIENTATION_VERTICAL

text \<open>The four out-parameters of \<open>measure\<close>.\<close>

record measurement =
  minimum :: int
  natural :: int
  minimum_baseline :: int
  natural_baseline :: int

text \<open>\<open>gtk_window_buttons_quartz_measure\<close>: takes what the out-parameters hold on
  entry and returns what they hold on exit; the widget is not written.\<close>

definition gtk_window_buttons_quartz_measure ::
    "GtkWindowButtonsQuartz \<Rightarrow> GtkOrientation \<Rightarrow> int \<Rightarrow> measurement \<Rightarrow> measurement" where
  "gtk_window_buttons_quartz_measure widget orientation for_size out =
     (if orientation = GTK_ORIENTATION_VERTICAL then out\<lparr>minimum := 28, natural := 28\<rparr>
      else if orientation = GTK_ORIENTATION_HORIZONTAL then out\<lparr>minimum := 60, natural := 60\<rparr>
      else out)"

text \<open>\<open>gtk_window_buttons_quartz_size_allocate\<close>.\<close>

definition gtk_window_buttons_quartz_size_allocate ::
    "platform \<Rightarrow> world \<Rightarrow> int \<Rightarrow> int \<Rightarrow> int \<Rightarrow> world" where
  "gtk_window_buttons_quartz_size_allocate p w width height baseline =
     (let w1 = chain_up (\<lambda>g. parent_size_allocate p g width height baseline)
                 (ParentSizeAllocate width height baseline) w
      in update_native_window_buttons_height w1)"

subsection \<open>Class initialisation: the installed properties\<close>

datatype GParamFlags =
    G_PARAM_READABLE | G_PARAM_WRITABLE | G_PARAM_CONSTRUCT | G_PARAM_CONSTRUCT_ONLY

record GParamSpec =
  pspec_name :: string
  default_value :: bool
  flags :: "GParamFlags list"

text \<open>\<open>GTK_PARAM_READWRITE\<close> is \<open>G_PARAM_READWRITE\<close> plus the static-string
  hints, which carry no behaviour.\<close>

definition GTK_PARAM_READWRITE :: "GParamFlags list" where
  "GTK_PARAM_READWRITE = [G_PARAM_READABLE, G_PARAM_WRITABLE]"

definition g_param_spec_boolean :: "string \<Rightarrow> bool \<Rightarrow> GParamFlags list \<Rightarrow> GParamSpec" where
  "g_param_spec_boolean nm dflt fl = \<lparr>pspec_name = nm, default_value = dflt, flags = fl\<rparr>"

text \<open>The array \<open>props[NUM_PROPERTIES]\<close> as \<open>gtk_window_buttons_quartz_class_init\<close>
  leaves it: slot \<open>PROP_0\<close> stays \<open>NULL\<close>.\<close>

definition props :: "GParamSpec option list" where
  "props =
     [None,
      Some (g_param_spec_boolean ''close'' True (GTK_PARAM_READWRITE @ [G_PARAM_CONSTRUCT_ONLY])),
      Some (g_param_spec_boolean ''minimize'' True (GTK_PARAM_READWRITE @ [G_PARAM_CONSTRUCT_ONLY])),
      Some (g_param_spec_boolean ''maximize'' True (GTK_PARAM_READWRITE @ [G_PARAM_CONSTRUCT_ONLY]))]"

text \<open>\<open>gtk_window_buttons_quartz_init\<close> has an empty body.\<close>

definition gtk_window_buttons_quartz_init :: "GtkWindowButtonsQuartz \<Rightarrow> GtkWindowButtonsQuartz" where
  "gtk_window_buttons_quartz_init buttons = buttons"

subsection \<open>The object system and the toolkit around the hooks\<close>

definition is_construct_property :: "GParamSpec \<Rightarrow> bool" where
  "is_construct_property pspec =
     (List.member (flags pspec) G_PARAM_CONSTRUCT \<or> List.member (flags pspec) G_PARAM_CONSTRUCT_ONLY)"

text \<open>Modelled from the spec: the object system's construction is not part of src.
  Every installed construct property is written once through the class's setter, with
  the value the caller gave for it or else with the default of its parameter
  specification.\<close>

fun set_construct_properties ::
    "(nat \<times> bool) list \<Rightarrow> (nat \<times> GParamSpec option) list \<Rightarrow> GtkWindowButtonsQuartz
       \<Rightarrow> GtkWindowButtonsQuartz" where
  "set_construct_properties given [] self = self"
| "set_construct_properties given ((prop_id, None) # rest) self =
     set_construct_properties given rest self"
| "set_construct_properties given ((prop_id, Some pspec) # rest) self =
     (if is_construct_property pspec then
        set_construct_properties given rest
          (fst (gtk_window_buttons_quartz_set_property self prop_id
                  (case map_of given prop_id of Some v \<Rightarrow> v | None \<Rightarrow> default_value pspec)))
      else set_construct_properties given rest self)"

text \<open>Modelled from the spec: \<open>g_object_new\<close> is not part of src. The instance
  memory starts zeroed (all three flags false) around the base instance \<open>base\<close>, the
  instance initialiser runs, then the construct properties are set. \<open>given\<close> lists
  the properties the caller specified, by id.\<close>

definition g_object_new :: "GtkWidget \<Rightarrow> (nat \<times> bool) list \<Rightarrow> GtkWindowButtonsQuartz" where
  "g_object_new base given =
     set_construct_properties given (zip [0 ..< NUM_PROPERTIES] props)
       (gtk_window_buttons_quartz_init
          \<lparr>parent_instance = base, close = False, minimize = False, maximize = False\<rparr>)"

text \<open>Modelled from the spec: \<open>g_object_set_property\<close> on a constructed object is not
  part of src. A construct-only property is refused with a warning and the class's
  setter is not called; so is a property that is not installed or not writable.\<close>

definition g_object_set_property ::
    "GtkWindowButtonsQuartz \<Rightarrow> nat \<Rightarrow> bool \<Rightarrow> GtkWindowButtonsQuartz \<times> warning list" where
  "g_object_set_property self prop_id value =
     (if prop_id < length props then
        (case props ! prop_id of
           None \<Rightarrow> (self, [NoSuchProperty prop_id])
         | Some pspec \<Rightarrow>
             if \<not> List.member (flags pspec) G_PARAM_WRITABLE
               then (self, [NotWritableProperty prop_id])
             else if List.member (flags pspec) G_PARAM_CONSTRUCT_ONLY
               then (self, [ConstructOnlyProperty prop_id])
             else gtk_window_buttons_quartz_set_property self prop_id value)
      else (self, [NoSuchProperty prop_id]))"

text \<open>Modelled from the spec: the toolkit's allocation entry point is not part of src.
  It records the new height as the widget's current height and then runs the
  \<open>size_allocate\<close> hook with it.\<close>

definition gtk_widget_allocate :: "platform \<Rightarrow> world \<Rightarrow> int \<Rightarrow> int \<Rightarrow> int \<Rightarrow> world" where
  "gtk_widget_allocate p w width height baseline =
     gtk_window_buttons_quartz_size_allocate p
       (w\<lparr>obj := (obj w)\<lparr>parent_instance :=
             (parent_instance (obj w))\<lparr>allocated_height := height\<rparr>\<rparr>\<rparr>)
       width height baseline"

text \<open>The lifecycle operations the toolkit drives on a widget. Measuring returns through
  its out-parameters only, so it leaves the world as it is.\<close>

datatype lifecycle_op =
    Realize
  | Unrealize
  | Measure GtkOrientation int
  | SizeAllocate int int int

fun lifecycle_step :: "platform \<Rightarrow> world \<Rightarrow> lifecycle_op \<Rightarrow> world" where
  "lifecycle_step p w Realize = gtk_window_buttons_quartz_realize p w"
| "lifecycle_step p w Unrealize = gtk_window_buttons_quartz_unrealize p w"
| "lifecycle_step p w (Measure orientation for_size) = w"
| "lifecycle_step p w (SizeAllocate width height baseline) =
     gtk_widget_allocate p w width height baseline"

definition run :: "platform \<Rightarrow> lifecycle_op list \<Rightarrow> world \<Rightarrow> world" where
  "run p ops w = foldl (lifecycle_step p) w ops"

subsection \<open>Example collaborators\<close>

text \<open>A base class whose hooks leave the base instance alone, over a surface that
  answers every show request with \<open>granted\<close>.\<close>

definition plain_platform :: "bool \<Rightarrow> platform" where
  "plain_platform granted =
     \<lparr>parent_realize = (\<lambda>g. g),
      parent_unrealize = (\<lambda>g. g),
      parent_size_allocate = (\<lambda>g width height baseline. g),
      show_window_controls_reply = (\<lambda>tr b. granted)\<rparr>"

text \<open>A widget with the given flags and allocated height on the given root surface, and
  nothing called so far.\<close>

definition example_world :: "GdkSurface option \<Rightarrow> int \<Rightarrow> bool \<Rightarrow> bool \<Rightarrow> bool \<Rightarrow> world" where
  "example_world surface h c m x =
     \<lparr>obj = \<lparr>parent_instance = \<lparr>root_surface = surface, allocated_height = h\<rparr>,
             close = c, minimize = m, maximize = x\<rparr>,
      trace = []\<rparr>"

section \<open>Basic facts\<close>

lemmas prop_ids = PROP_0_def PROP_CLOSE_def PROP_MINIMIZE_def PROP_MAXIMIZE_def
  NUM_PROPERTIES_def

lemmas surface_call_defs =
  gdk_macos_surface_show_window_controls_def gdk_macos_surface_enable_window_controls_def
  gdk_macos_surface_set_window_controls_height_def gtk_native_get_surface_def
  gtk_widget_get_height_def emit_def chain_up_def

lemmas hook_defs =
  gtk_window_buttons_quartz_realize_def gtk_window_buttons_quartz_unrealize_def
  gtk_window_buttons_quartz_size_allocate_def update_native_window_buttons_height_def

text \<open>What each hook adds to the trace and what it does to the instance.\<close>

lemma realize_trace:
  "trace (gtk_window_buttons_quartz_realize p w) =
     trace w @ [ParentRealize] @
       (if GDK_IS_MACOS_SURFACE (root_surface (parent_realize p (parent_instance (obj w))))
        then ShowWindowControls True #
             (if show_window_controls_reply p (trace w @ [ParentRealize]) True
              then [EnableWindowControls (close (obj w)) (minimize (obj w)) (maximize (obj w))]
              else [])
        else [])"
  by (simp add: hook_defs surface_call_defs Let_def)

lemma realize_obj:
  "obj (gtk_window_buttons_quartz_realize p w) =
     (obj w)\<lparr>parent_instance := parent_realize p (parent_instance (obj w))\<rparr>"
  by (simp add: hook_defs surface_call_defs Let_def)

lemma unrealize_trace:
  "trace (gtk_window_buttons_quartz_unrealize p w) =
     trace w @
       (if GDK_IS_MACOS_SURFACE (root_surface (parent_instance (obj w)))
        then [ShowWindowControls False] else []) @ [ParentUnrealize]"
  by (simp add: hook_defs surface_call_defs Let_def)

lemma unrealize_obj:
  "obj (gtk_window_buttons_quartz_unrealize p w) =
     (obj w)\<lparr>parent_instance := parent_unrealize p (parent_instance (obj w))\<rparr>"
  by (simp add: hook_defs surface_call_defs Let_def)

lemma size_allocate_trace:
  "trace (gtk_window_buttons_quartz_size_allocate p w width height baseline) =
     trace w @ [ParentSizeAllocate width height baseline] @
       (let g = parent_size_allocate p (parent_instance (obj w)) width height baseline
        in if GDK_IS_MACOS_SURFACE (root_surface g) \<and> 0 < allocated_height g
           then [SetWindowControlsHeight (allocated_height g)] else [])"
  by (simp add: hook_defs surface_call_defs Let_def)

lemma size_allocate_obj:
  "obj (gtk_window_buttons_quartz_size_allocate p w width height baseline) =
     (obj w)\<lparr>parent_instance :=
        parent_size_allocate p (parent_instance (obj w)) width height baseline\<rparr>"
  by (simp add: hook_defs surface_call_defs Let_def)

lemma allocate_trace:
  "trace (gtk_widget_allocate p w width height baseline) =
     trace w @ [ParentSizeAllocate width height baseline] @
       (let g = parent_size_allocate p
                  ((parent_instance (obj w))\<lparr>allocated_height := height\<rparr>) width height baseline
        in if GDK_IS_MACOS_SURFACE (root_surface g) \<and> 0 < allocated_height g
           then [SetWindowControlsHeight (allocated_height g)] else [])"
  by (simp add: gtk_widget_allocate_def size_allocate_trace)

lemma allocate_obj:
  "obj (gtk_widget_allocate p w width height baseline) =
     (obj w)\<lparr>parent_instance :=
        parent_size_allocate p ((parent_instance (obj w))\<lparr>allocated_height := height\<rparr>)
          width height baseline\<rparr>"
  by (simp add: gtk_widget_allocate_def size_allocate_obj)

lemma step_keeps_flags:
  "close (obj (lifecycle_step p w op)) = close (obj w)
   \<and> minimize (obj (lifecycle_step p w op)) = minimize (obj w)
   \<and> maximize (obj (lifecycle_step p w op)) = maximize (obj w)"
  by (cases op) (simp_all add: realize_obj unrealize_obj allocate_obj)

lemma run_keeps_flags:
  "close (obj (run p ops w)) = close (obj w)
   \<and> minimize (obj (run p ops w)) = minimize (obj w)
   \<and> maximize (obj (run p ops w)) = maximize (obj w)"
proof (induction ops arbitrary: w)
  case Nil
  show ?case by (simp add: run_def)
next
  case (Cons op ops)
  have "run p (op # ops) w = run p ops (lifecycle_step p w op)"
    by (simp add: run_def)
  with Cons.IH [of "lifecycle_step p w op"] step_keeps_flags [of p w op]
  show ?case by simp
qed

lemma construct_table:
  "zip [0 ..< NUM_PROPERTIES] props =
     [(0, None),
      (PROP_CLOSE, Some (g_param_spec_boolean ''close'' True (GTK_PARAM_READWRITE @ [G_PARAM_CONSTRUCT_ONLY]))),
      (PROP_MINIMIZE, Some (g_param_spec_boolean ''minimize'' True (GTK_PARAM_READWRITE @ [G_PARAM_CONSTRUCT_ONLY]))),
      (PROP_MAXIMIZE, Some (g_param_spec_boolean ''maximize'' True (GTK_PARAM_READWRITE @ [G_PARAM_CONSTRUCT_ONLY])))]"
  by (simp add: props_def prop_ids upt_conv_Cons)

lemma g_object_new_eq:
  "g_object_new base given =
     \<lparr>parent_instance = base,
      close = (case map_of given PROP_CLOSE of Some v \<Rightarrow> v | None \<Rightarrow> True),
      minimize = (case map_of given PROP_MINIMIZE of Some v \<Rightarrow> v | None \<Rightarrow> True),
      maximize = (case map_of given PROP_MAXIMIZE of Some v \<Rightarrow> v | None \<Rightarrow> True)\<rparr>"
  unfolding g_object_new_def construct_table
  by (simp add: gtk_window_buttons_quartz_init_def is_construct_property_def
      g_param_spec_boolean_def GTK_PARAM_READWRITE_def
      gtk_window_buttons_quartz_set_property_def prop_ids split: option.split)


section \<open>Measuring\<close>

text \<open>
  Claim C7. Measuring yields minimum = natural = 28 in the vertical orientation and
  minimum = natural = 60 in the horizontal orientation, whatever \<open>for_size\<close> is,
  whatever the widget holds and whatever the out-parameters held before; the two
  baselines are left as they were.
\<close>

theorem measure_fixed_size:
  "minimum (gtk_window_buttons_quartz_measure widget GTK_ORIENTATION_VERTICAL for_size out) = 28
   \<and> natural (gtk_window_buttons_quartz_measure widget GTK_ORIENTATION_VERTICAL for_size out) = 28
   \<and> minimum (gtk_window_buttons_quartz_measure widget GTK_ORIENTATION_HORIZONTAL for_size out) = 60
   \<and> natural (gtk_window_buttons_quartz_measure widget GTK_ORIENTATION_HORIZONTAL for_size out) = 60
   \<and> gtk_window_buttons_quartz_measure widget orientation for_size out
       = gtk_window_buttons_quartz_measure widget' orientation for_size' out"
  by (simp add: gtk_window_buttons_quartz_measure_def)

section \<open>Realize\<close>

text \<open>
  Claim C1. On a widget whose root surface is a macOS surface, realize chains up, then
  calls \<open>showWindowControls (surface, true)\<close>; if the surface answers true,
  \<open>enableWindowControls\<close> follows exactly once, with the close/minimize/maximize
  flags the widget was constructed with (whatever lifecycle operations ran in between);
  if it answers false, \<open>enableWindowControls\<close> is not called. Nothing else is called.
\<close>

theorem realize_compatible_surface:
  assumes constructed:
      "w = run p ops \<lparr>obj = g_object_new base
                              [(PROP_CLOSE, c), (PROP_MINIMIZE, m), (PROP_MAXIMIZE, x)],
                        trace = tr\<rparr>"
    and compatible:
      "GDK_IS_MACOS_SURFACE (root_surface (parent_realize p (parent_instance (obj w))))"
  shows "trace (gtk_window_buttons_quartz_realize p w) =
           trace w @ [ParentRealize, ShowWindowControls True] @
             (if show_window_controls_reply p (trace w @ [ParentRealize]) True
              then [EnableWindowControls c m x] else [])"
proof -
  have "close (obj w) = c \<and> minimize (obj w) = m \<and> maximize (obj w) = x"
    unfolding constructed by (simp add: run_keeps_flags g_object_new_eq prop_ids)
  with compatible show ?thesis
    by (simp add: realize_trace)
qed

theorem realize_compatible_surface_witness:
  "trace (gtk_window_buttons_quartz_realize (plain_platform True)
            (run (plain_platform True) [Measure GTK_ORIENTATION_VERTICAL (-1)]
               \<lparr>obj = g_object_new \<lparr>root_surface = Some GdkMacosSurface, allocated_height = 0\<rparr>
                        [(PROP_CLOSE, True), (PROP_MINIMIZE, False), (PROP_MAXIMIZE, True)],
                trace = []\<rparr>))
     = [ParentRealize, ShowWindowControls True, EnableWindowControls True False True]
   \<and> trace (gtk_window_buttons_quartz_realize (plain_platform False)
            (run (plain_platform False) []
               \<lparr>obj = g_object_new \<lparr>root_surface = Some GdkMacosSurface, allocated_height = 0\<rparr>
                        [(PROP_CLOSE, True), (PROP_MINIMIZE, False), (PROP_MAXIMIZE, True)],
                trace = []\<rparr>))
     = [ParentRealize, ShowWindowControls True]"
proof -
  let ?new = "\<lparr>obj = g_object_new \<lparr>root_surface = Some GdkMacosSurface, allocated_height = 0\<rparr>
                        [(PROP_CLOSE, True), (PROP_MINIMIZE, False), (PROP_MAXIMIZE, True)],
               trace = []\<rparr>"
  have yes: "GDK_IS_MACOS_SURFACE (root_surface (parent_realize (plain_platform True)
      (parent_instance (obj (run (plain_platform True) [Measure GTK_ORIENTATION_VERTICAL (-1)] ?new)))))"
    by (simp add: plain_platform_def run_def g_object_new_eq)
  have no: "GDK_IS_MACOS_SURFACE (root_surface (parent_realize (plain_platform False)
      (parent_instance (obj (run (plain_platform False) [] ?new)))))"
    by (simp add: plain_platform_def run_def g_object_new_eq)
  show ?thesis
    using realize_compatible_surface [OF refl yes] realize_compatible_surface [OF refl no]
    by (simp add: plain_platform_def run_def)
qed

text \<open>
  Claim C4. On a widget whose root surface is not a macOS surface, realize does the
  base-class realize and nothing else: neither \<open>showWindowControls\<close> nor
  \<open>enableWindowControls\<close> is called, and the hook returns normally (it has no failing
  branch: the result is the world after the base call).
\<close>

theorem realize_unsupported_surface:
  assumes "\<not> GDK_IS_MACOS_SURFACE (root_surface (parent_realize p (parent_instance (obj w))))"
  shows "gtk_window_buttons_quartz_realize p w =
           w\<lparr>obj := (obj w)\<lparr>parent_instance := parent_realize p (parent_instance (obj w))\<rparr>,
             trace := trace w @ [ParentRealize]\<rparr>
         \<and> surface_calls (trace (gtk_window_buttons_quartz_realize p w)) = surface_calls (trace w)"
  using assms by (simp add: hook_defs surface_call_defs Let_def surface_calls_def)

theorem realize_unsupported_surface_witness:
  "\<not> GDK_IS_MACOS_SURFACE (root_surface (parent_realize (plain_platform True)
        (parent_instance (obj (example_world (Some OtherSurface) 0 True True False)))))
   \<and> gtk_window_buttons_quartz_realize (plain_platform True)
        (example_world (Some OtherSurface) 0 True True False)
       = (example_world (Some OtherSurface) 0 True True False)\<lparr>trace := [ParentRealize]\<rparr>
   \<and> surface_calls (trace (gtk_window_buttons_quartz_realize (plain_platform True)
        (example_world (Some OtherSurface) 0 True True False))) = []"
proof -
  let ?w = "example_world (Some OtherSurface) 0 True True False"
  have h: "\<not> GDK_IS_MACOS_SURFACE (root_surface (parent_realize (plain_platform True)
        (parent_instance (obj ?w))))"
    by (simp add: plain_platform_def example_world_def)
  show ?thesis
    using h realize_unsupported_surface [OF h]
    by (simp add: plain_platform_def example_world_def surface_calls_def)
qed

section \<open>Unrealize\<close>

text \<open>
  Claim C3. On a widget whose root surface is a macOS surface, unrealize calls
  \<open>showWindowControls (surface, false)\<close> exactly once, whatever happened before
  (the earlier trace is arbitrary, and so is the surface's reply), and it does so before
  the base-class unrealize.
\<close>

theorem unrealize_compatible_surface:
  assumes "GDK_IS_MACOS_SURFACE (root_surface (parent_instance (obj w)))"
  shows "trace (gtk_window_buttons_quartz_unrealize p w) =
           trace w @ [ShowWindowControls False, ParentUnrealize]"
  using assms by (simp add: unrealize_trace)

theorem unrealize_compatible_surface_witness:
  "GDK_IS_MACOS_SURFACE (root_surface (parent_instance
       (obj (example_world (Some GdkMacosSurface) 28 True True True))))
   \<and> trace (gtk_window_buttons_quartz_unrealize (plain_platform False)
              (example_world (Some GdkMacosSurface) 28 True True True))
       = [ShowWindowControls False, ParentUnrealize]"
proof -
  have h: "GDK_IS_MACOS_SURFACE (root_surface (parent_instance
       (obj (example_world (Some GdkMacosSurface) 28 True True True))))"
    by (simp add: example_world_def)
  show ?thesis
    using h unrealize_compatible_surface [OF h, of "plain_platform False"]
    by (simp add: example_world_def)
qed

section \<open>Size allocation\<close>

text \<open>
  Claim C2. Every size-allocate first chains up to the base class and then calls
  \<open>setWindowControlsHeight\<close> exactly once, with the widget's current height, if and
  only if the root surface is a macOS surface and that height is greater than zero; a
  height of zero or less is never passed on.
\<close>

theorem size_allocate_propagates_height:
  "trace (gtk_window_buttons_quartz_size_allocate p w width height baseline) =
     trace w @ [ParentSizeAllocate width height baseline] @
       (if GDK_IS_MACOS_SURFACE (root_surface
             (parent_size_allocate p (parent_instance (obj w)) width height baseline))
           \<and> 0 < allocated_height
                 (parent_size_allocate p (parent_instance (obj w)) width height baseline)
        then [SetWindowControlsHeight (allocated_height
                (parent_size_allocate p (parent_instance (obj w)) width height baseline))]
        else [])"
  by (simp add: size_allocate_trace Let_def)

theorem size_allocate_propagates_height_witness:
  "trace (gtk_window_buttons_quartz_size_allocate (plain_platform True)
            (example_world (Some GdkMacosSurface) 44 True True True) 60 44 (-1))
     = [ParentSizeAllocate 60 44 (-1), SetWindowControlsHeight 44]
   \<and> trace (gtk_window_buttons_quartz_size_allocate (plain_platform True)
            (example_world (Some GdkMacosSurface) 0 True True True) 60 0 (-1))
     = [ParentSizeAllocate 60 0 (-1)]"
  using size_allocate_propagates_height
          [of "plain_platform True" "example_world (Some GdkMacosSurface) 44 True True True" 60 44 "-1"]
        size_allocate_propagates_height
          [of "plain_platform True" "example_world (Some GdkMacosSurface) 0 True True True" 60 0 "-1"]
  by (simp add: plain_platform_def example_world_def)

text \<open>
  Claim C10. On a widget whose root surface is not a macOS surface, size-allocate only
  chains up: \<open>setWindowControlsHeight\<close> is not called, whatever the height, and no
  other call reaches the surface.
\<close>

theorem size_allocate_unsupported_surface:
  assumes "\<not> GDK_IS_MACOS_SURFACE (root_surface
              (parent_size_allocate p (parent_instance (obj w)) width height baseline))"
  shows "trace (gtk_window_buttons_quartz_size_allocate p w width height baseline) =
           trace w @ [ParentSizeAllocate width height baseline]
         \<and> surface_calls (trace (gtk_window_buttons_quartz_size_allocate p w width height baseline))
             = surface_calls (trace w)"
  using assms by (simp add: size_allocate_trace surface_calls_def Let_def)

theorem size_allocate_unsupported_surface_witness:
  "\<not> GDK_IS_MACOS_SURFACE (root_surface
        (parent_size_allocate (plain_platform True)
           (parent_instance (obj (example_world (Some OtherSurface) 44 True True True))) 60 44 (-1)))
   \<and> 0 < gtk_widget_get_height (example_world (Some OtherSurface) 44 True True True)
   \<and> trace (gtk_window_buttons_quartz_size_allocate (plain_platform True)
              (example_world (Some OtherSurface) 44 True True True) 60 44 (-1))
       = [ParentSizeAllocate 60 44 (-1)]"
proof -
  let ?w = "example_world (Some OtherSurface) 44 True True True"
  have h: "\<not> GDK_IS_MACOS_SURFACE (root_surface
        (parent_size_allocate (plain_platform True) (parent_instance (obj ?w)) 60 44 (-1)))"
    by (simp add: plain_platform_def example_world_def)
  show ?thesis
    using h size_allocate_unsupported_surface [OF h]
    by (simp add: plain_platform_def example_world_def gtk_widget_get_height_def)
qed

section \<open>A whole lifecycle\<close>

text \<open>
  Claim C5. Construct, realize on a macOS surface that grants the show request, allocate
  with height 30, allocate with height 50, unrealize: the calls that reach the surface
  are exactly \<open>showWindowControls (true)\<close>, \<open>enableWindowControls (close, minimize,
  maximize)\<close>, \<open>setWindowControlsHeight (30)\<close>, \<open>setWindowControlsHeight (50)\<close>,
  \<open>showWindowControls (false)\<close>, in this order. The base class is any one whose realize
  and size-allocate leave the widget's root surface and allocated height alone.
\<close>

theorem lifecycle_call_sequence:
  assumes surface: "root_surface base = Some GdkMacosSurface"
    and realize_frame: "\<forall>g. root_surface (parent_realize p g) = root_surface g"
    and allocate_frame:
      "\<forall>g width height baseline.
         root_surface (parent_size_allocate p g width height baseline) = root_surface g
         \<and> allocated_height (parent_size_allocate p g width height baseline) = allocated_height g"
    and granted: "show_window_controls_reply p [ParentRealize] True"
  shows "surface_calls (trace (run p
           [Realize, SizeAllocate width1 30 baseline1, SizeAllocate width2 50 baseline2, Unrealize]
           \<lparr>obj = g_object_new base [(PROP_CLOSE, c), (PROP_MINIMIZE, m), (PROP_MAXIMIZE, x)],
            trace = []\<rparr>))
         = [ShowWindowControls True, EnableWindowControls c m x,
            SetWindowControlsHeight 30, SetWindowControlsHeight 50, ShowWindowControls False]"
  using assms
  by (simp add: run_def realize_trace realize_obj allocate_trace allocate_obj unrealize_trace
      g_object_new_eq surface_calls_def prop_ids Let_def)

theorem lifecycle_call_sequence_witness:
  "surface_calls (trace (run (plain_platform True)
           [Realize, SizeAllocate 60 30 (-1), SizeAllocate 60 50 (-1), Unrealize]
           \<lparr>obj = g_object_new \<lparr>root_surface = Some GdkMacosSurface, allocated_height = 0\<rparr>
                    [(PROP_CLOSE, True), (PROP_MINIMIZE, False), (PROP_MAXIMIZE, True)],
            trace = []\<rparr>))
         = [ShowWindowControls True, EnableWindowControls True False True,
            SetWindowControlsHeight 30, SetWindowControlsHeight 50, ShowWindowControls False]"
  by (rule lifecycle_call_sequence) (simp_all add: plain_platform_def)

section \<open>The three flags\<close>

text \<open>
  Claim C6. For each of the eight combinations of close, minimize and maximize given at
  construction, and after any sequence of realize, unrealize, measure and size-allocate,
  the property getter returns the constructed value for each of the three properties;
  no lifecycle operation changes any of the three flags.
\<close>

theorem flags_fixed_at_construction:
  "gtk_window_buttons_quartz_get_property
      (obj (run p ops \<lparr>obj = g_object_new base
                              [(PROP_CLOSE, c), (PROP_MINIMIZE, m), (PROP_MAXIMIZE, x)],
                        trace = tr\<rparr>)) PROP_CLOSE v = (c, [])
   \<and> gtk_window_buttons_quartz_get_property
      (obj (run p ops \<lparr>obj = g_object_new base
                              [(PROP_CLOSE, c), (PROP_MINIMIZE, m), (PROP_MAXIMIZE, x)],
                        trace = tr\<rparr>)) PROP_MINIMIZE v = (m, [])
   \<and> gtk_window_buttons_quartz_get_property
      (obj (run p ops \<lparr>obj = g_object_new base
                              [(PROP_CLOSE, c), (PROP_MINIMIZE, m), (PROP_MAXIMIZE, x)],
                        trace = tr\<rparr>)) PROP_MAXIMIZE v = (x, [])
   \<and> close (obj (lifecycle_step p w op)) = close (obj w)
   \<and> minimize (obj (lifecycle_step p w op)) = minimize (obj w)
   \<and> maximize (obj (lifecycle_step p w op)) = maximize (obj w)"
  by (simp add: gtk_window_buttons_quartz_get_property_def run_keeps_flags step_keeps_flags
      g_object_new_eq prop_ids)

text \<open>
  Claim C8. A widget constructed without one or more of the close, minimize and
  maximize options has the default, true, for each option left out: the property
  getter returns true for it.
\<close>

theorem unspecified_options_default_true:
  "(map_of given PROP_CLOSE = None \<longrightarrow>
      gtk_window_buttons_quartz_get_property (g_object_new base given) PROP_CLOSE v = (True, []))
   \<and> (map_of given PROP_MINIMIZE = None \<longrightarrow>
      gtk_window_buttons_quartz_get_property (g_object_new base given) PROP_MINIMIZE v = (True, []))
   \<and> (map_of given PROP_MAXIMIZE = None \<longrightarrow>
      gtk_window_buttons_quartz_get_property (g_object_new base given) PROP_MAXIMIZE v = (True, []))"
  by (simp add: gtk_window_buttons_quartz_get_property_def g_object_new_eq prop_ids)

theorem unspecified_options_default_true_witness:
  "map_of [(PROP_MINIMIZE, False)] PROP_CLOSE = None
   \<and> map_of [(PROP_MINIMIZE, False)] PROP_MAXIMIZE = None
   \<and> map_of ([] :: (nat \<times> bool) list) PROP_MINIMIZE = None
   \<and> gtk_window_buttons_quartz_get_property
        (g_object_new \<lparr>root_surface = None, allocated_height = 0\<rparr> [(PROP_MINIMIZE, False)])
        PROP_CLOSE False = (True, [])
   \<and> gtk_window_buttons_quartz_get_property
        (g_object_new \<lparr>root_surface = None, allocated_height = 0\<rparr> [(PROP_MINIMIZE, False)])
        PROP_MAXIMIZE False = (True, [])
   \<and> gtk_window_buttons_quartz_get_property
        (g_object_new \<lparr>root_surface = None, allocated_height = 0\<rparr> [])
        PROP_MINIMIZE False = (True, [])"
proof -
  have h: "map_of [(PROP_MINIMIZE, False)] PROP_CLOSE = None
           \<and> map_of [(PROP_MINIMIZE, False)] PROP_MAXIMIZE = None
           \<and> map_of ([] :: (nat \<times> bool) list) PROP_MINIMIZE = None"
    by (simp add: prop_ids)
  show ?thesis
    using h
      unspecified_options_default_true
        [of "[(PROP_MINIMIZE, False)]" "\<lparr>root_surface = None, allocated_height = 0\<rparr>" False]
      unspecified_options_default_true
        [of "[]" "\<lparr>root_surface = None, allocated_height = 0\<rparr>" False]
    by blast
qed

text \<open>
  Claim C9. In every widget state and for every boolean \<open>v\<close>, the property setter
  called with the close, minimize or maximize id stores \<open>v\<close> in the corresponding flag
  and touches nothing else; the widget code has no guard against writes after
  construction. It is the property system that refuses such a write, because the three
  properties are installed construct-only, and it does so without calling the setter.
\<close>

theorem setter_overwrites_flag:
  "gtk_window_buttons_quartz_set_property self PROP_CLOSE v = (self\<lparr>close := v\<rparr>, [])
   \<and> gtk_window_buttons_quartz_set_property self PROP_MINIMIZE v = (self\<lparr>minimize := v\<rparr>, [])
   \<and> gtk_window_buttons_quartz_set_property self PROP_MAXIMIZE v = (self\<lparr>maximize := v\<rparr>, [])
   \<and> g_object_set_property self PROP_CLOSE v = (self, [ConstructOnlyProperty PROP_CLOSE])
   \<and> g_object_set_property self PROP_MINIMIZE v = (self, [ConstructOnlyProperty PROP_MINIMIZE])
   \<and> g_object_set_property self PROP_MAXIMIZE v = (self, [ConstructOnlyProperty PROP_MAXIMIZE])"
  by (simp add: gtk_window_buttons_quartz_set_property_def g_object_set_property_def props_def
      g_param_spec_boolean_def GTK_PARAM_READWRITE_def prop_ids)

end
